theory Spec2Isabelle
  imports Main "HOL-Library.Sublist"
begin

section \<open>JavaScript values, result objects and thrown values\<close>

text \<open>
  The tool handlers of \<^verbatim>\<open>src/index.js\<close> return plain objects. An object is kept as the
  list of its own properties in the order of the object literal; a property that is read
  but absent is \<open>undefined\<close>.
\<close>

datatype jsval =
    JUndefined
  | JNull
  | JBool bool
  | JNum int
  | JStr string
  | JArr "jsval list"
  | JObj "(string \<times> jsval) list"

type_synonym obj = "(string \<times> jsval) list"

definition has_field :: "obj \<Rightarrow> string \<Rightarrow> bool" where
  "has_field r k = (k \<in> set (map fst r))"

definition field :: "obj \<Rightarrow> string \<Rightarrow> jsval" where
  "field r k = (case map_of r k of None \<Rightarrow> JUndefined | Some v \<Rightarrow> v)"

text \<open>Truthiness, as \<^verbatim>\<open>!x\<close> and \<^verbatim>\<open>x || y\<close> test it (no NaN arises from JSON).\<close>

fun js_truthy :: "jsval \<Rightarrow> bool" where
  "js_truthy JUndefined = False"
| "js_truthy JNull = False"
| "js_truthy (JBool b) = b"
| "js_truthy (JNum n) = (n \<noteq> 0)"
| "js_truthy (JStr s) = (s \<noteq> [])"
| "js_truthy (JArr xs) = True"
| "js_truthy (JObj kvs) = True"

text \<open>
  Reading a property \<^verbatim>\<open>v.k\<close> of a value: a TypeError on \<open>null\<close> and \<open>undefined\<close>, the own
  property of an object, and \<open>undefined\<close> otherwise. Only own properties are covered (the
  handlers read \<^verbatim>\<open>dependencies\<close> and \<^verbatim>\<open>react\<close>, which no prototype defines).
\<close>

definition type_error :: "string \<Rightarrow> string \<Rightarrow> string" where
  "type_error what k =
     ''Cannot read properties of '' @ what @ '' (reading '' @ [CHR 0x27] @ k @ [CHR 0x27] @ '')''"

fun js_get :: "jsval \<Rightarrow> string \<Rightarrow> string + jsval" where
  "js_get JUndefined k = Inl (type_error ''undefined'' k)"
| "js_get JNull k = Inl (type_error ''null'' k)"
| "js_get (JObj kvs) k = Inr (case map_of kvs k of None \<Rightarrow> JUndefined | Some v \<Rightarrow> v)"
| "js_get v k = Inr JUndefined"

text \<open>
  What a \<^verbatim>\<open>catch (error)\<close> clause can receive: an \<^verbatim>\<open>Error\<close> with its message, or the plain
  object \<^verbatim>\<open>{ error, stderr }\<close> that \<^verbatim>\<open>executeCommand\<close> rejects with (its \<^verbatim>\<open>error\<close> member is
  never read; only \<^verbatim>\<open>stderr\<close> is kept).
\<close>

datatype thrown = JsError string | ExecReject string

text \<open>\<^verbatim>\<open>${error.message}\<close> inside a template literal: a plain object has no \<^verbatim>\<open>message\<close>.\<close>

fun message_of :: "thrown \<Rightarrow> string" where
  "message_of (JsError m) = m"
| "message_of (ExecReject se) = ''undefined''"

text \<open>\<^verbatim>\<open>error.stderr || ""\<close>: an \<^verbatim>\<open>Error\<close> made by \<^verbatim>\<open>new Error(msg)\<close> has no \<^verbatim>\<open>stderr\<close>.\<close>

fun stderr_of :: "thrown \<Rightarrow> string" where
  "stderr_of (JsError m) = []"
| "stderr_of (ExecReject se) = se"

text \<open>Decimal rendering of a number inside a template literal.\<close>

fun show_nat :: "nat \<Rightarrow> string" where
  "show_nat n =
     (if n < 10 then [''0123456789'' ! n]
      else show_nat (n div 10) @ [''0123456789'' ! (n mod 10)])"

definition show_int :: "int \<Rightarrow> string" where
  "show_int i = (if i < 0 then CHR ''-'' # show_nat (nat (- i)) else show_nat (nat i))"

text \<open>\<^verbatim>\<open>args.join(" ")\<close>.\<close>

fun join_sp :: "string list \<Rightarrow> string" where
  "join_sp [] = []"
| "join_sp [x] = x"
| "join_sp (x # y # ys) = x @ '' '' @ join_sp (y # ys)"

text \<open>\<^verbatim>\<open>x || dflt\<close> for an optional string parameter: absent and empty are both falsy.\<close>

definition or_default :: "string option \<Rightarrow> string \<Rightarrow> string" where
  "or_default x dflt = (case x of None \<Rightarrow> dflt | Some v \<Rightarrow> if v = [] then dflt else v)"

section \<open>The environment of one call\<close>

text \<open>
  The file system, the clock, the random number generator and the operating system are
  not part of the repository. Every tool call sees one snapshot of them; the handlers are
  functions of that snapshot, so every theorem holds for whatever the environment answers.
  \<open>child_exec\<close> is what \<^verbatim>\<open>exec\<close> does with a command: \<open>Inl msg\<close> when the call itself throws
  an \<^verbatim>\<open>Error\<close> with that message (inside the executor of the promise, which is then
  rejected with that \<^verbatim>\<open>Error\<close>), \<open>Inr r\<close> when the command was run and its callback received
  the outcome \<open>r\<close>;
  \<open>child_spawn\<close> is \<open>Some msg\<close> when \<^verbatim>\<open>spawn\<close> (or attaching the listeners) throws
  synchronously, \<open>None\<close> when it returns a child; \<open>math_random_id\<close> is the value of
  \<^verbatim>\<open>Math.random().toString(36).substring(2, 15)\<close>; \<open>fs_readJson p\<close> is
  \<^verbatim>\<open>JSON.parse(fs.readFileSync(p, "utf8"))\<close>, \<open>Inl msg\<close> when either throws.
\<close>

record exec_outcome =
  exec_code :: int
  exec_signal :: "string option"
  exec_stdout :: string
  exec_stderr :: string

record env =
  fs_existsSync :: "string \<Rightarrow> bool"
  fs_readJson :: "string \<Rightarrow> string + jsval"
  fs_readFileSync :: "string \<Rightarrow> string + string"
  fs_mkdirSync :: "string \<Rightarrow> string option"
  fs_writeFileSync :: "string \<Rightarrow> string \<Rightarrow> string option"
  byteLength :: "string \<Rightarrow> int"
  path_join :: "string \<Rightarrow> string \<Rightarrow> string"
  path_dirname :: "string \<Rightarrow> string"
  os_homedir :: string
  process_cwd :: string
  date_now :: int
  toISOString :: "int \<Rightarrow> string"
  math_random_id :: string
  child_spawn :: "string \<Rightarrow> string list \<Rightarrow> string \<Rightarrow> string option"
  child_exec :: "string \<Rightarrow> string \<Rightarrow> string + exec_outcome"

section \<open>Child processes and the registry\<close>

text \<open>
  A \<^verbatim>\<open>ChildProcess\<close> object of the runtime. \<open>exitCode\<close> is \<open>null\<close> while the child runs;
  when the child ends the runtime sets \<open>exitCode\<close> if it exited by itself and
  \<open>signalCode\<close> (leaving \<open>exitCode\<close> at \<open>null\<close>) if a signal terminated it.
\<close>

record child_process =
  exitCode :: "int option"
  signalCode :: "string option"
  killed :: bool

definition new_child :: child_process where
  "new_child = \<lparr>exitCode = None, signalCode = None, killed = False\<rparr>"

definition alive :: "child_process \<Rightarrow> bool" where
  "alive c = (exitCode c = None \<and> signalCode c = None)"

text \<open>
  The local variables \<^verbatim>\<open>output\<close> and \<^verbatim>\<open>errorOutput\<close> of one activation of
  \<^verbatim>\<open>startProcess\<close>, which the two \<^verbatim>\<open>data\<close> listeners of that activation capture.
\<close>

record listener_vars =
  local_output :: string
  local_errorOutput :: string

text \<open>
  The value stored in \<^verbatim>\<open>runningProcesses\<close>. \<open>process\<close> is a reference to the child (its
  index in the heap of children); \<open>output_text\<close> (the property \<^verbatim>\<open>output\<close>, renamed because
  \<open>output\<close> is reserved) and \<open>errorOutput\<close> are string properties of the stored object,
  initialised from the local variables by value.
\<close>

record process_info =
  process :: nat
  command :: string
  args :: "string list"
  cwd :: string
  output_text :: string
  errorOutput :: string
  startTime :: int
  processId :: string

text \<open>
  A JavaScript \<^verbatim>\<open>Map\<close>: entries in insertion order; \<^verbatim>\<open>set\<close> on a key already present
  replaces the value and keeps the entry's place.
\<close>

fun map_set :: "'k \<Rightarrow> 'v \<Rightarrow> ('k \<times> 'v) list \<Rightarrow> ('k \<times> 'v) list" where
  "map_set k v [] = [(k, v)]"
| "map_set k v ((k', v') # m) =
     (if k' = k then (k, v) # m else (k', v') # map_set k v m)"

definition map_has :: "('k \<times> 'v) list \<Rightarrow> 'k \<Rightarrow> bool" where
  "map_has m k = (k \<in> set (map fst m))"

definition map_get :: "('k \<times> 'v) list \<Rightarrow> 'k \<Rightarrow> 'v option" where
  "map_get m k = map_of m k"

record state =
  runningProcesses :: "(string \<times> process_info) list"
  children :: "child_process list"
  listeners :: "listener_vars list"

definition init :: state where
  "init = \<lparr>runningProcesses = [], children = [], listeners = []\<rparr>"

text \<open>
  Dereferencing \<^verbatim>\<open>processInfo.process\<close>. Every reference stored by \<^verbatim>\<open>startProcess\<close> is
  in range (\<open>wf_refs_run\<close> below), so the other branch is never taken from \<open>init\<close>.
\<close>

definition child_of :: "state \<Rightarrow> process_info \<Rightarrow> child_process" where
  "child_of s info =
     (if process info < length (children s) then children s ! process info else new_child)"

text \<open>
  \<^verbatim>\<open>childProcess.kill()\<close>: sends SIGTERM to a child that has not ended and marks it
  \<open>killed\<close>; on a child that has ended it does nothing. It never waits and never changes
  \<open>exitCode\<close>.
\<close>

definition child_kill :: "nat \<Rightarrow> state \<Rightarrow> state" where
  "child_kill h s =
     (if h < length (children s) \<and> alive (children s ! h)
      then s\<lparr>children := (children s)[h := (children s ! h)\<lparr>killed := True\<rparr>]\<rparr>
      else s)"

section \<open>The functions of src/index.js\<close>

definition executeCommand :: "env \<Rightarrow> string \<Rightarrow> string \<Rightarrow> thrown + (string \<times> string)" where
  "executeCommand e cmd dir =
     (case child_exec e cmd dir of
        Inl msg \<Rightarrow> Inl (JsError msg)
      | Inr r \<Rightarrow>
          if exec_code r = 0 \<and> exec_signal r = None
          then Inr (exec_stdout r, exec_stderr r)
          else Inl (ExecReject (exec_stderr r)))"

definition startProcess ::
  "env \<Rightarrow> string \<Rightarrow> string list \<Rightarrow> string \<Rightarrow> state \<Rightarrow> thrown + (string \<times> state)" where
  "startProcess e cmd argv dir s =
     (case child_spawn e cmd argv dir of
        Some msg \<Rightarrow> Inl (JsError msg)
      | None \<Rightarrow>
          let h = length (children s);
              vars = \<lparr>local_output = [], local_errorOutput = []\<rparr>;
              pid = math_random_id e;
              info = \<lparr>process = h, command = cmd, args = argv, cwd = dir,
                      output_text = local_output vars, errorOutput = local_errorOutput vars,
                      startTime = date_now e, processId = pid\<rparr>
          in Inr (pid, s\<lparr>runningProcesses := map_set pid info (runningProcesses s),
                         children := children s @ [new_child],
                         listeners := listeners s @ [vars]\<rparr>))"

definition createCommand :: "string \<Rightarrow> string option \<Rightarrow> string" where
  "createCommand name template =
     (case template of
        None \<Rightarrow> ''npx create-react-app '' @ name
      | Some t \<Rightarrow>
          if t = [] then ''npx create-react-app '' @ name
          else ''npx create-react-app '' @ name @ '' --template '' @ t)"

definition createReactApp_body ::
  "env \<Rightarrow> string \<Rightarrow> string option \<Rightarrow> string option \<Rightarrow> state \<Rightarrow> thrown + (obj \<times> state)" where
  "createReactApp_body e name template directory s =
     (if name = [] then Inl (JsError ''Project name is required'')
      else
        let baseDir = or_default directory (os_homedir e);
            projectDir = path_join e baseDir name
        in if fs_existsSync e projectDir
           then Inl (JsError (''Directory '' @ projectDir @ '' already exists''))
           else (case startProcess e (createCommand name template) [] baseDir s of
                   Inl err \<Rightarrow> Inl err
                 | Inr (pid, s') \<Rightarrow>
                     Inr ([(''message'',
                              JStr (''Creating React app '' @ [CHR 0x22] @ name @ [CHR 0x22]
                                    @ '' in '' @ projectDir)),
                           (''processId'', JStr pid),
                           (''projectDir'', JStr projectDir)], s')))"

definition handleCreateReactApp ::
  "env \<Rightarrow> string \<Rightarrow> string option \<Rightarrow> string option \<Rightarrow> state \<Rightarrow> obj \<times> state" where
  "handleCreateReactApp e name template directory s =
     (case createReactApp_body e name template directory s of
        Inr r \<Rightarrow> r
      | Inl err \<Rightarrow> ([(''error'', JStr (''Error creating React app: '' @ message_of err))], s))"

definition runReactApp_body :: "env \<Rightarrow> string \<Rightarrow> state \<Rightarrow> thrown + (obj \<times> state)" where
  "runReactApp_body e projectPath s =
     (if projectPath = [] then Inl (JsError ''Project path is required'')
      else if \<not> fs_existsSync e projectPath
      then Inl (JsError (''Directory '' @ projectPath @ '' does not exist''))
      else
        let packageJsonPath = path_join e projectPath ''package.json''
        in if \<not> fs_existsSync e packageJsonPath
           then Inl (JsError (''Not a valid React app: package.json not found in '' @ projectPath))
           else (case fs_readJson e packageJsonPath of
                   Inl msg \<Rightarrow> Inl (JsError msg)
                 | Inr packageJson \<Rightarrow>
                     (case js_get packageJson ''dependencies'' of
                        Inl msg \<Rightarrow> Inl (JsError msg)
                      | Inr deps \<Rightarrow>
                          if \<not> js_truthy deps
                          then Inl (JsError
                            ''Not a valid React app: react dependency not found in package.json'')
                          else (case js_get deps ''react'' of
                                  Inl msg \<Rightarrow> Inl (JsError msg)
                                | Inr react \<Rightarrow>
                                    if \<not> js_truthy react
                                    then Inl (JsError
                                      ''Not a valid React app: react dependency not found in package.json'')
                                    else (case startProcess e ''npm'' [''start''] projectPath s of
                                            Inl err \<Rightarrow> Inl err
                                          | Inr (pid, s') \<Rightarrow>
                                              Inr ([(''message'',
                                                       JStr (''Starting React development server in ''
                                                             @ projectPath)),
                                                    (''processId'', JStr pid),
                                                    (''note'',
                                                       JStr ''The development server should be accessible at http://localhost:3000'')],
                                                   s'))))))"

definition handleRunReactApp :: "env \<Rightarrow> string \<Rightarrow> state \<Rightarrow> obj \<times> state" where
  "handleRunReactApp e projectPath s =
     (case runReactApp_body e projectPath s of
        Inr r \<Rightarrow> r
      | Inl err \<Rightarrow> ([(''error'', JStr (''Error running React app: '' @ message_of err))], s))"

definition runCommand_body :: "env \<Rightarrow> string \<Rightarrow> string option \<Rightarrow> thrown + obj" where
  "runCommand_body e cmd directory =
     (if cmd = [] then Inl (JsError ''Command is required'')
      else
        let workingDir = or_default directory (process_cwd e)
        in if \<not> fs_existsSync e workingDir
           then Inl (JsError (''Directory '' @ workingDir @ '' does not exist''))
           else (case executeCommand e cmd workingDir of
                   Inl err \<Rightarrow> Inl err
                 | Inr (out, se) \<Rightarrow>
                     Inr [(''command'', JStr cmd),
                          (''directory'', JStr workingDir),
                          (''output'', JStr out),
                          (''stderr'', JStr se)]))"

definition handleRunCommand :: "env \<Rightarrow> string \<Rightarrow> string option \<Rightarrow> obj" where
  "handleRunCommand e cmd directory =
     (case runCommand_body e cmd directory of
        Inr r \<Rightarrow> r
      | Inl err \<Rightarrow> [(''error'', JStr (''Error executing command: '' @ message_of err)),
                    (''stderr'', JStr (stderr_of err))])"

definition exitCode_val :: "child_process \<Rightarrow> jsval" where
  "exitCode_val c = (case exitCode c of None \<Rightarrow> JNull | Some n \<Rightarrow> JNum n)"

definition runTime_str :: "env \<Rightarrow> process_info \<Rightarrow> string" where
  "runTime_str e info = show_int ((date_now e - startTime info) div 1000) @ '' seconds''"

definition command_str :: "process_info \<Rightarrow> string" where
  "command_str info = command info @ '' '' @ join_sp (args info)"

definition getProcessOutput_body :: "env \<Rightarrow> string \<Rightarrow> state \<Rightarrow> thrown + obj" where
  "getProcessOutput_body e pid s =
     (if pid = [] then Inl (JsError ''Process ID is required'')
      else if \<not> map_has (runningProcesses s) pid
      then Inl (JsError (''Process with ID '' @ pid @ '' not found''))
      else (case map_get (runningProcesses s) pid of
              None \<Rightarrow> Inl (JsError (type_error ''undefined'' ''process''))
            | Some processInfo \<Rightarrow>
                let isRunning = (exitCode (child_of s processInfo) = None)
                in Inr [(''processId'', JStr pid),
                        (''command'', JStr (command_str processInfo)),
                        (''directory'', JStr (cwd processInfo)),
                        (''isRunning'', JBool isRunning),
                        (''exitCode'', exitCode_val (child_of s processInfo)),
                        (''output'', JStr (output_text processInfo)),
                        (''errorOutput'', JStr (errorOutput processInfo)),
                        (''startTime'', JStr (toISOString e (startTime processInfo))),
                        (''runTime'', JStr (runTime_str e processInfo))]))"

definition handleGetProcessOutput :: "env \<Rightarrow> string \<Rightarrow> state \<Rightarrow> obj" where
  "handleGetProcessOutput e pid s =
     (case getProcessOutput_body e pid s of
        Inr r \<Rightarrow> r
      | Inl err \<Rightarrow> [(''error'', JStr (''Error getting process output: '' @ message_of err))])"

definition stopProcess_body :: "string \<Rightarrow> state \<Rightarrow> thrown + (obj \<times> state)" where
  "stopProcess_body pid s =
     (if pid = [] then Inl (JsError ''Process ID is required'')
      else if \<not> map_has (runningProcesses s) pid
      then Inl (JsError (''Process with ID '' @ pid @ '' not found''))
      else (case map_get (runningProcesses s) pid of
              None \<Rightarrow> Inl (JsError (type_error ''undefined'' ''process''))
            | Some processInfo \<Rightarrow>
                Inr ([(''message'', JStr (''Process '' @ pid @ '' stopped'')),
                      (''command'', JStr (command_str processInfo)),
                      (''directory'', JStr (cwd processInfo))],
                     child_kill (process processInfo) s)))"

definition handleStopProcess :: "string \<Rightarrow> state \<Rightarrow> obj \<times> state" where
  "handleStopProcess pid s =
     (case stopProcess_body pid s of
        Inr r \<Rightarrow> r
      | Inl err \<Rightarrow> ([(''error'', JStr (''Error stopping process: '' @ message_of err))], s))"

definition snapshot :: "env \<Rightarrow> state \<Rightarrow> string \<times> process_info \<Rightarrow> jsval" where
  "snapshot e s entry =
     (case entry of (pid, processInfo) \<Rightarrow>
        JObj [(''processId'', JStr pid),
              (''command'', JStr (command_str processInfo)),
              (''directory'', JStr (cwd processInfo)),
              (''isRunning'', JBool (exitCode (child_of s processInfo) = None)),
              (''exitCode'', exitCode_val (child_of s processInfo)),
              (''startTime'', JStr (toISOString e (startTime processInfo))),
              (''runTime'', JStr (runTime_str e processInfo))])"

definition handleListProcesses :: "env \<Rightarrow> state \<Rightarrow> obj" where
  "handleListProcesses e s =
     (let processes = map (snapshot e s) (runningProcesses s)
      in [(''processes'', JArr processes), (''count'', JNum (int (length processes)))])"

definition editFile_body :: "env \<Rightarrow> string \<Rightarrow> string \<Rightarrow> thrown + obj" where
  "editFile_body e filePath content =
     (if filePath = [] then Inl (JsError ''File path is required'')
      else
        let directory = path_dirname e filePath;
            made = (if \<not> fs_existsSync e directory then fs_mkdirSync e directory else None)
        in (case made of
              Some msg \<Rightarrow> Inl (JsError msg)
            | None \<Rightarrow>
                (case fs_writeFileSync e filePath content of
                   Some msg \<Rightarrow> Inl (JsError msg)
                 | None \<Rightarrow>
                     Inr [(''message'', JStr (''File '' @ filePath @ '' updated successfully'')),
                          (''filePath'', JStr filePath),
                          (''size'', JNum (byteLength e content))])))"

definition handleEditFile :: "env \<Rightarrow> string \<Rightarrow> string \<Rightarrow> obj" where
  "handleEditFile e filePath content =
     (case editFile_body e filePath content of
        Inr r \<Rightarrow> r
      | Inl err \<Rightarrow> [(''error'', JStr (''Error editing file: '' @ message_of err))])"

definition readFile_body :: "env \<Rightarrow> string \<Rightarrow> thrown + obj" where
  "readFile_body e filePath =
     (if filePath = [] then Inl (JsError ''File path is required'')
      else if \<not> fs_existsSync e filePath
      then Inl (JsError (''File '' @ filePath @ '' does not exist''))
      else (case fs_readFileSync e filePath of
              Inl msg \<Rightarrow> Inl (JsError msg)
            | Inr content \<Rightarrow>
                Inr [(''filePath'', JStr filePath),
                     (''content'', JStr content),
                     (''size'', JNum (byteLength e content))]))"

definition handleReadFile :: "env \<Rightarrow> string \<Rightarrow> obj" where
  "handleReadFile e filePath =
     (case readFile_body e filePath of
        Inr r \<Rightarrow> r
      | Inl err \<Rightarrow> [(''error'', JStr (''Error reading file: '' @ message_of err))])"

definition installCommand :: "string \<Rightarrow> bool option \<Rightarrow> string" where
  "installCommand packageName dev =
     (if dev = Some True then ''npm install '' @ packageName @ '' --save-dev''
      else ''npm install '' @ packageName)"

definition installPackage_body ::
  "env \<Rightarrow> string \<Rightarrow> string option \<Rightarrow> bool option \<Rightarrow> state \<Rightarrow> thrown + (obj \<times> state)" where
  "installPackage_body e packageName directory dev s =
     (if packageName = [] then Inl (JsError ''Package name is required'')
      else
        let workingDir = or_default directory (process_cwd e)
        in if \<not> fs_existsSync e workingDir
           then Inl (JsError (''Directory '' @ workingDir @ '' does not exist''))
           else if \<not> fs_existsSync e (path_join e workingDir ''package.json'')
           then Inl (JsError
                  (''Not a valid Node.js project: package.json not found in '' @ workingDir))
           else (case startProcess e (installCommand packageName dev) [] workingDir s of
                   Inl err \<Rightarrow> Inl err
                 | Inr (pid, s') \<Rightarrow>
                     Inr ([(''message'',
                              JStr (''Installing '' @ packageName @ '' in '' @ workingDir)),
                           (''processId'', JStr pid),
                           (''command'', JStr (installCommand packageName dev))], s')))"

definition handleInstallPackage ::
  "env \<Rightarrow> string \<Rightarrow> string option \<Rightarrow> bool option \<Rightarrow> state \<Rightarrow> obj \<times> state" where
  "handleInstallPackage e packageName directory dev s =
     (case installPackage_body e packageName directory dev s of
        Inr r \<Rightarrow> r
      | Inl err \<Rightarrow> ([(''error'', JStr (''Error installing package: '' @ message_of err))], s))"

section \<open>Tool calls and operating-system events\<close>

text \<open>
  A tool call whose arguments passed the schema of the dispatcher (strings, optional
  strings, an optional boolean). The dispatcher's \<^verbatim>\<open>switch\<close> selects the handler.
\<close>

datatype tool_call =
    CreateReactApp string "string option" "string option"
  | RunReactApp string
  | RunCommand string "string option"
  | GetProcessOutput string
  | StopProcess string
  | ListProcesses
  | EditFile string string
  | ReadFile string
  | InstallPackage string "string option" "bool option"

fun call_tool :: "env \<Rightarrow> tool_call \<Rightarrow> state \<Rightarrow> obj \<times> state" where
  "call_tool e (CreateReactApp name template directory) s =
     handleCreateReactApp e name template directory s"
| "call_tool e (RunReactApp projectPath) s = handleRunReactApp e projectPath s"
| "call_tool e (RunCommand cmd directory) s = (handleRunCommand e cmd directory, s)"
| "call_tool e (GetProcessOutput pid) s = (handleGetProcessOutput e pid s, s)"
| "call_tool e (StopProcess pid) s = handleStopProcess pid s"
| "call_tool e ListProcesses s = (handleListProcesses e s, s)"
| "call_tool e (EditFile filePath content) s = (handleEditFile e filePath content, s)"
| "call_tool e (ReadFile filePath) s = (handleReadFile e filePath, s)"
| "call_tool e (InstallPackage packageName directory dev) s =
     handleInstallPackage e packageName directory dev s"

text \<open>
  What happens between tool calls: a chunk arrives on a child's stdout or stderr and the
  listener of that child appends it to its captured local variable; the runtime reports
  that a child exited with a code, or that a signal terminated it. A child ends once.
\<close>

datatype os_event =
    StdoutData nat string
  | StderrData nat string
  | ChildExit nat int
  | ChildSignal nat string

fun os_step :: "os_event \<Rightarrow> state \<Rightarrow> state" where
  "os_step (StdoutData h chunk) s =
     (if h < length (listeners s)
      then s\<lparr>listeners := (listeners s)
             [h := (listeners s ! h)\<lparr>local_output := local_output (listeners s ! h) @ chunk\<rparr>]\<rparr>
      else s)"
| "os_step (StderrData h chunk) s =
     (if h < length (listeners s)
      then s\<lparr>listeners := (listeners s)
             [h := (listeners s ! h)
                \<lparr>local_errorOutput := local_errorOutput (listeners s ! h) @ chunk\<rparr>]\<rparr>
      else s)"
| "os_step (ChildExit h code) s =
     (if h < length (children s) \<and> alive (children s ! h)
      then s\<lparr>children := (children s)[h := (children s ! h)\<lparr>exitCode := Some code\<rparr>]\<rparr>
      else s)"
| "os_step (ChildSignal h sig) s =
     (if h < length (children s) \<and> alive (children s ! h)
      then s\<lparr>children := (children s)[h := (children s ! h)\<lparr>signalCode := Some sig\<rparr>]\<rparr>
      else s)"

datatype event = Call env tool_call | Os os_event

fun step :: "state \<Rightarrow> event \<Rightarrow> state" where
  "step s (Call e c) = snd (call_tool e c s)"
| "step s (Os ev) = os_step ev s"

definition run :: "state \<Rightarrow> event list \<Rightarrow> state" where
  "run s evs = foldl step s evs"

text \<open>The identifier a launch call hands to its caller, when the call succeeds.\<close>

fun is_launch :: "tool_call \<Rightarrow> bool" where
  "is_launch (CreateReactApp name template directory) = True"
| "is_launch (RunReactApp projectPath) = True"
| "is_launch (InstallPackage packageName directory dev) = True"
| "is_launch c = False"

definition returned_id :: "obj \<Rightarrow> string option" where
  "returned_id r = (case map_of r ''processId'' of Some (JStr pid) \<Rightarrow> Some pid | _ \<Rightarrow> None)"

fun launched_by :: "state \<Rightarrow> event \<Rightarrow> string list" where
  "launched_by s (Call e c) =
     (if is_launch c
      then (case returned_id (fst (call_tool e c s)) of None \<Rightarrow> [] | Some pid \<Rightarrow> [pid])
      else [])"
| "launched_by s (Os ev) = []"

fun launched :: "state \<Rightarrow> event list \<Rightarrow> string list" where
  "launched s [] = []"
| "launched s (ev # evs) = launched_by s ev @ launched (step s ev) evs"

section \<open>Notions used to state the properties\<close>

text \<open>The keys of the registry, in the order in which the \<^verbatim>\<open>Map\<close> iterates.\<close>

definition keys :: "state \<Rightarrow> string list" where
  "keys s = map fst (runningProcesses s)"

text \<open>What \<^verbatim>\<open>set\<close> does to the list of keys.\<close>

definition add_key :: "'k list \<Rightarrow> 'k \<Rightarrow> 'k list" where
  "add_key ks k = (if k \<in> set ks then ks else ks @ [k])"

text \<open>The state after a successful \<^verbatim>\<open>startProcess\<close> that stored \<open>info\<close> under \<open>pid\<close>.\<close>

definition registered :: "state \<Rightarrow> string \<Rightarrow> process_info \<Rightarrow> state" where
  "registered s pid info =
     s\<lparr>runningProcesses := map_set pid info (runningProcesses s),
       children := children s @ [new_child],
       listeners := listeners s @ [\<lparr>local_output = [], local_errorOutput = []\<rparr>]\<rparr>"

definition fresh_info :: "env \<Rightarrow> state \<Rightarrow> process_info \<Rightarrow> bool" where
  "fresh_info e s info =
     (processId info = math_random_id e \<and> process info = length (children s) \<and>
      output_text info = [] \<and> errorOutput info = [])"

text \<open>The two outcomes of a launch handler: an error result, or one stored record.\<close>

definition launch_outcome :: "env \<Rightarrow> state \<Rightarrow> obj \<times> state \<Rightarrow> bool" where
  "launch_outcome e s r =
     ((\<exists>m. r = ([(''error'', JStr m)], s)) \<or>
      (\<exists>res info. r = (res, registered s (math_random_id e) info) \<and>
         returned_id res = Some (math_random_id e) \<and> fresh_info e s info))"

text \<open>Invariants of the registry.\<close>

definition keys_match :: "state \<Rightarrow> bool" where
  "keys_match s = list_all (\<lambda>(k, info). processId info = k) (runningProcesses s)"

definition wf_refs :: "state \<Rightarrow> bool" where
  "wf_refs s =
     (list_all (\<lambda>(k, info). process info < length (children s)) (runningProcesses s) \<and>
      length (listeners s) = length (children s))"

definition outputs_empty :: "state \<Rightarrow> bool" where
  "outputs_empty s =
     list_all (\<lambda>(k, info). output_text info = [] \<and> errorOutput info = []) (runningProcesses s)"

text \<open>
  A parsed manifest declares the react dependency when it is an object whose
  \<^verbatim>\<open>dependencies\<close> member is an object with a \<^verbatim>\<open>react\<close> member.
\<close>

fun declares_react :: "jsval \<Rightarrow> bool" where
  "declares_react (JObj kvs) =
     (case map_of kvs ''dependencies'' of
        Some (JObj deps) \<Rightarrow> map_of deps ''react'' \<noteq> None
      | _ \<Rightarrow> False)"
| "declares_react v = False"

text \<open>The identifiers of the snapshots in a list-processes result, in the result's order.\<close>

definition snapshot_id :: "jsval \<Rightarrow> string" where
  "snapshot_id v =
     (case v of
        JObj props \<Rightarrow> (case field props ''processId'' of JStr pid \<Rightarrow> pid | _ \<Rightarrow> [])
      | _ \<Rightarrow> [])"

definition listed_ids :: "obj \<Rightarrow> string list" where
  "listed_ids r = (case field r ''processes'' of JArr xs \<Rightarrow> map snapshot_id xs | _ \<Rightarrow> [])"

section \<open>A concrete environment and concrete runs\<close>

text \<open>
  A machine on which \<^verbatim>\<open>/app\<close> is a React project, \<^verbatim>\<open>/srv\<close> an empty directory and
  \<^verbatim>\<open>/home/u\<close> the home directory, every command run to completion exits with status 1, and
  the random draw is \<^verbatim>\<open>k3x9\<close>.
\<close>

definition demo_env :: env where
  "demo_env =
     \<lparr>fs_existsSync = (\<lambda>p. p \<in> set [''/app'', ''/app/package.json'', ''/srv'', ''/home/u'']),
      fs_readJson = (\<lambda>p. if p = ''/app/package.json''
                          then Inr (JObj [(''dependencies'', JObj [(''react'', JStr ''^18.2.0'')])])
                          else Inl ''ENOENT''),
      fs_readFileSync = (\<lambda>p. Inl ''ENOENT''),
      fs_mkdirSync = (\<lambda>p. None),
      fs_writeFileSync = (\<lambda>p c. None),
      byteLength = (\<lambda>c. int (length c)),
      path_join = (\<lambda>a b. a @ ''/'' @ b),
      path_dirname = (\<lambda>p. ''/''),
      os_homedir = ''/home/u'',
      process_cwd = ''/srv'',
      date_now = 5000,
      toISOString = show_int,
      math_random_id = ''k3x9'',
      child_spawn = (\<lambda>c a d. None),
      child_exec = (\<lambda>c d. Inr \<lparr>exec_code = 1, exec_signal = None,
                                  exec_stdout = ''out'', exec_stderr = ''err''\<rparr>)\<rparr>"

text \<open>The development server is launched, prints \<^verbatim>\<open>hello\<close> and a newline, and exits with 0.\<close>

definition hello_trace :: "event list" where
  "hello_trace =
     [Call demo_env (RunReactApp ''/app''),
      Os (StdoutData 0 (''hello'' @ [CHR 0x0A])),
      Os (ChildExit 0 0)]"

text \<open>The development server is launched and stopped; SIGTERM terminates it.\<close>

definition stop_trace :: "event list" where
  "stop_trace =
     [Call demo_env (RunReactApp ''/app''),
      Call demo_env (StopProcess ''k3x9''),
      Os (ChildSignal 0 ''SIGTERM'')]"

text \<open>Later polling: output arrives, status is asked for, the process is stopped again.\<close>

definition poll_trace :: "event list" where
  "poll_trace =
     [Os (StdoutData 0 ''x''),
      Call demo_env (GetProcessOutput ''k3x9''),
      Call demo_env (StopProcess ''k3x9'')]"

text \<open>Two launches for which the random draw is the same.\<close>

definition clash_trace :: "event list" where
  "clash_trace = [Call demo_env (RunReactApp ''/app''), Call demo_env (RunReactApp ''/app'')]"

text \<open>One launch, and a further launch whose draw is the same as that of the first.\<close>

definition one_launch :: "event list" where
  "one_launch = [Call demo_env (RunReactApp ''/app'')]"

definition created :: "event list" where
  "created = [Call demo_env (CreateReactApp ''app'' None None)]"

definition relaunch :: event where
  "relaunch = Call demo_env (RunReactApp ''/app'')"

definition replace_trace :: "event list" where
  "replace_trace =
     [Call demo_env (CreateReactApp ''app'' None None), Call demo_env (RunReactApp ''/app'')]"

text \<open>Two launches with different draws, with other events in between.\<close>

definition two_trace :: "event list" where
  "two_trace =
     [Call demo_env (CreateReactApp ''app'' None None),
      Os (StdoutData 0 ''x''),
      Call (demo_env\<lparr>math_random_id := ''b7''\<rparr>) (RunReactApp ''/app''),
      Call demo_env ListProcesses]"

text \<open>
  A launch for which \<^verbatim>\<open>Math.random()\<close> returns 0: \<^verbatim>\<open>(0).toString(36)\<close> is \<^verbatim>\<open>"0"\<close>, and its
  \<^verbatim>\<open>substring(2, 15)\<close> is the empty string.
\<close>

definition empty_id_trace :: "event list" where
  "empty_id_trace =
     [Call (demo_env\<lparr>math_random_id := []\<rparr>) (RunReactApp ''/app''), Os (ChildExit 0 0)]"

lemmas eval_defs =
  run_def init_def demo_env_def hello_trace_def stop_trace_def poll_trace_def
  clash_trace_def replace_trace_def two_trace_def empty_id_trace_def
  one_launch_def created_def relaunch_def
  handleRunReactApp_def runReactApp_body_def startProcess_def
  handleCreateReactApp_def createReactApp_body_def createCommand_def or_default_def
  handleInstallPackage_def installPackage_body_def installCommand_def
  handleGetProcessOutput_def getProcessOutput_body_def
  handleStopProcess_def stopProcess_body_def child_kill_def
  handleListProcesses_def snapshot_def
  handleRunCommand_def runCommand_body_def executeCommand_def
  map_has_def map_get_def child_of_def new_child_def alive_def exitCode_val_def
  runTime_str_def command_str_def show_int_def returned_id_def field_def has_field_def
  listed_ids_def snapshot_id_def keys_def Let_def

section \<open>The Map\<close>

lemma keys_map_set: "map fst (map_set k v m) = add_key (map fst m) k"
  by (induction m) (force simp: add_key_def)+

lemma map_of_map_set: "map_of (map_set k v m) k' = (if k' = k then Some v else map_of m k')"
  by (induction m) auto

lemma list_all_map_set: "list_all P m \<Longrightarrow> P (k, v) \<Longrightarrow> list_all P (map_set k v m)"
  by (induction m) auto

lemma map_get_has: "map_get m k = Some v \<Longrightarrow> map_has m k"
  by (auto simp: map_get_def map_has_def dest: map_of_SomeD intro: rev_image_eqI)

lemma has_get_Some: "map_has m k \<Longrightarrow> \<exists>v. map_get m k = Some v \<and> (k, v) \<in> set m"
  by (cases "map_of m k")
    (auto simp: map_has_def map_get_def map_of_eq_None_iff dest: map_of_SomeD)

lemma map_has_set_keys: "map_has (runningProcesses s) pid \<longleftrightarrow> pid \<in> set (keys s)"
  by (simp add: map_has_def keys_def)

lemma set_add_key: "set (add_key ks k) = insert k (set ks)"
  by (auto simp: add_key_def)

lemma distinct_add_key: "distinct ks \<Longrightarrow> distinct (add_key ks k)"
  by (simp add: add_key_def)

lemma set_foldl_add_key: "set (foldl add_key ks ps) = set ks \<union> set ps"
  by (induction ps arbitrary: ks) (auto simp: set_add_key)

lemma distinct_foldl_add_key: "distinct ks \<Longrightarrow> distinct (foldl add_key ks ps)"
  by (induction ps arbitrary: ks) (auto simp: distinct_add_key)

lemma length_foldl_add_key: "length (foldl add_key ks ps) \<le> length ks + length ps"
proof (induction ps arbitrary: ks)
  case Nil
  show ?case by simp
next
  case (Cons p ps)
  have "length (add_key ks p) \<le> Suc (length ks)"
    by (simp add: add_key_def)
  with Cons [of "add_key ks p"] show ?case by simp
qed

lemma foldl_add_key_fresh: "distinct (ks @ ps) \<Longrightarrow> foldl add_key ks ps = ks @ ps"
proof (induction ps arbitrary: ks)
  case Nil
  show ?case by simp
next
  case (Cons p ps)
  from Cons.prems have "add_key ks p = ks @ [p]"
    by (auto simp: add_key_def)
  moreover from Cons.prems have "distinct ((ks @ [p]) @ ps)"
    by auto
  ultimately show ?case
    using Cons.IH [of "ks @ [p]"] by simp
qed

lemma prefix_foldl_add_key: "prefix ks (foldl add_key ks ps)"
proof (induction ps arbitrary: ks)
  case Nil
  show ?case by simp
next
  case (Cons p ps)
  have "prefix ks (add_key ks p)"
    by (simp add: add_key_def)
  with Cons [of "add_key ks p"] show ?case
    by (auto intro: prefix_order.trans)
qed

lemma foldl_add_key_first: "foldl add_key [] ps = rev (remdups (rev ps))"
proof (induction ps rule: rev_induct)
  case Nil
  show ?case by simp
next
  case (snoc p ps)
  have "set (rev (remdups (rev ps))) = set ps" by simp
  with snoc show ?case
    by (simp add: add_key_def)
qed

section \<open>What one step does to the state\<close>

lemma startProcess_outcome:
  "(\<exists>m. startProcess e cmd argv dir s = Inl (JsError m)) \<or>
   (\<exists>info. startProcess e cmd argv dir s =
        Inr (math_random_id e, registered s (math_random_id e) info)
      \<and> fresh_info e s info \<and> command info = cmd \<and> args info = argv \<and> cwd info = dir)"
proof (cases "child_spawn e cmd argv dir")
  case (Some m)
  then show ?thesis by (simp add: startProcess_def)
next
  case None
  let ?info = "\<lparr>process = length (children s), command = cmd, args = argv, cwd = dir,
      output_text = [], errorOutput = [], startTime = date_now e,
      processId = math_random_id e\<rparr>"
  from None have "startProcess e cmd argv dir s =
      Inr (math_random_id e, registered s (math_random_id e) ?info)"
    by (simp add: startProcess_def registered_def Let_def)
  moreover have "fresh_info e s ?info" by (simp add: fresh_info_def)
  ultimately show ?thesis by force
qed

lemma handleCreateReactApp_outcome:
  "launch_outcome e s (handleCreateReactApp e name template directory s)"
  using startProcess_outcome
    [of e "createCommand name template" "[]" "or_default directory (os_homedir e)" s]
  by (auto simp: launch_outcome_def handleCreateReactApp_def createReactApp_body_def Let_def
      returned_id_def)

lemma handleInstallPackage_outcome:
  "launch_outcome e s (handleInstallPackage e packageName directory dev s)"
  using startProcess_outcome
    [of e "installCommand packageName dev" "[]" "or_default directory (process_cwd e)" s]
  by (auto simp: launch_outcome_def handleInstallPackage_def installPackage_body_def Let_def
      returned_id_def)

lemma handleRunReactApp_outcome:
  "launch_outcome e s (handleRunReactApp e projectPath s)"
  using startProcess_outcome [of e "''npm''" "[''start'']" projectPath s]
  by (auto simp: launch_outcome_def handleRunReactApp_def runReactApp_body_def Let_def
      returned_id_def split: sum.splits)

lemma call_tool_launch: "is_launch c \<Longrightarrow> launch_outcome e s (call_tool e c s)"
  by (cases c)
    (simp_all add: handleCreateReactApp_outcome handleInstallPackage_outcome
      handleRunReactApp_outcome)

lemma child_kill_frame:
  "runningProcesses (child_kill h s) = runningProcesses s"
  "listeners (child_kill h s) = listeners s"
  "length (children (child_kill h s)) = length (children s)"
  by (simp_all add: child_kill_def)

lemma handleStopProcess_frame:
  "runningProcesses (snd (handleStopProcess pid s)) = runningProcesses s"
  "listeners (snd (handleStopProcess pid s)) = listeners s"
  "length (children (snd (handleStopProcess pid s))) = length (children s)"
  by (simp_all add: handleStopProcess_def stopProcess_body_def child_kill_frame
      split: option.splits)

lemma call_tool_other:
  assumes "\<not> is_launch c"
  shows "runningProcesses (snd (call_tool e c s)) = runningProcesses s"
    and "listeners (snd (call_tool e c s)) = listeners s"
    and "length (children (snd (call_tool e c s))) = length (children s)"
  using assms by (cases c; simp add: handleStopProcess_frame)+

lemma os_step_frame:
  "runningProcesses (os_step ev s) = runningProcesses s"
  "length (listeners (os_step ev s)) = length (listeners s)"
  "length (children (os_step ev s)) = length (children s)"
  by (cases ev; simp)+

text \<open>One step either leaves the registry alone or stores one fresh record.\<close>

lemma step_registry:
  "(launched_by s ev = [] \<and> runningProcesses (step s ev) = runningProcesses s \<and>
      length (children (step s ev)) = length (children s) \<and>
      length (listeners (step s ev)) = length (listeners s)) \<or>
   (\<exists>e info. launched_by s ev = [math_random_id e] \<and> fresh_info e s info \<and>
      runningProcesses (step s ev) = map_set (math_random_id e) info (runningProcesses s) \<and>
      length (children (step s ev)) = Suc (length (children s)) \<and>
      length (listeners (step s ev)) = Suc (length (listeners s)))"
proof (cases ev)
  case (Os oe)
  then show ?thesis by (simp add: os_step_frame)
next
  case (Call e c)
  show ?thesis
  proof (cases "is_launch c")
    case False
    with Call show ?thesis by (simp add: call_tool_other)
  next
    case True
    from call_tool_launch [OF True, of e s]
    consider (err) m where "call_tool e c s = ([(''error'', JStr m)], s)"
      | (ok) res info where "call_tool e c s = (res, registered s (math_random_id e) info)"
          "returned_id res = Some (math_random_id e)" "fresh_info e s info"
      unfolding launch_outcome_def by blast
    then show ?thesis
    proof cases
      case err
      with Call True show ?thesis by (simp add: returned_id_def)
    next
      case ok
      with Call True have "launched_by s ev = [math_random_id e]"
        and "runningProcesses (step s ev) = map_set (math_random_id e) info (runningProcesses s)"
        and "length (children (step s ev)) = Suc (length (children s))"
        and "length (listeners (step s ev)) = Suc (length (listeners s))"
        by (simp_all add: registered_def)
      with ok(3) show ?thesis by blast
    qed
  qed
qed

lemma keys_step: "keys (step s ev) = foldl add_key (keys s) (launched_by s ev)"
  using step_registry [of s ev] by (auto simp: keys_def keys_map_set)

lemma run_Nil: "run s [] = s"
  by (simp add: run_def)

lemma run_Cons: "run s (ev # evs) = run (step s ev) evs"
  by (simp add: run_def)

lemma keys_run: "keys (run s evs) = foldl add_key (keys s) (launched s evs)"
  by (induction evs arbitrary: s) (simp_all add: run_Nil run_Cons keys_step)

lemma lookup_step:
  "pid \<notin> set (launched_by s ev) \<Longrightarrow>
     map_get (runningProcesses (step s ev)) pid = map_get (runningProcesses s) pid"
  using step_registry [of s ev] by (auto simp: map_get_def map_of_map_set fun_eq_iff)

section \<open>Invariants of every run\<close>

lemma keys_match_step: "keys_match s \<Longrightarrow> keys_match (step s ev)"
  using step_registry [of s ev]
  by (auto simp: keys_match_def fresh_info_def intro: list_all_map_set)

lemma outputs_empty_step: "outputs_empty s \<Longrightarrow> outputs_empty (step s ev)"
  using step_registry [of s ev]
  by (auto simp: outputs_empty_def fresh_info_def intro: list_all_map_set)

lemma wf_refs_step: "wf_refs s \<Longrightarrow> wf_refs (step s ev)"
proof -
  assume wf: "wf_refs s"
  from step_registry [of s ev] show ?thesis
  proof (elim disjE conjE exE)
    assume "runningProcesses (step s ev) = runningProcesses s"
      "length (children (step s ev)) = length (children s)"
      "length (listeners (step s ev)) = length (listeners s)"
    with wf show ?thesis by (simp add: wf_refs_def)
  next
    fix e info
    assume a: "fresh_info e s info"
      "runningProcesses (step s ev) = map_set (math_random_id e) info (runningProcesses s)"
      "length (children (step s ev)) = Suc (length (children s))"
      "length (listeners (step s ev)) = Suc (length (listeners s))"
    from wf have "list_all (\<lambda>(k, info). process info < Suc (length (children s)))
        (runningProcesses s)"
      by (auto simp: wf_refs_def list_all_iff)
    with a wf show ?thesis
      by (auto simp: wf_refs_def fresh_info_def intro: list_all_map_set)
  qed
qed

lemma keys_match_run: "keys_match s \<Longrightarrow> keys_match (run s evs)"
  by (induction evs arbitrary: s) (simp_all add: run_Nil run_Cons keys_match_step)

lemma outputs_empty_run: "outputs_empty s \<Longrightarrow> outputs_empty (run s evs)"
  by (induction evs arbitrary: s) (simp_all add: run_Nil run_Cons outputs_empty_step)

lemma wf_refs_run: "wf_refs s \<Longrightarrow> wf_refs (run s evs)"
  by (induction evs arbitrary: s) (simp_all add: run_Nil run_Cons wf_refs_step)

lemma init_invariants: "keys_match init" "outputs_empty init" "wf_refs init" "keys init = []"
  by (simp_all add: keys_match_def outputs_empty_def wf_refs_def keys_def init_def)

lemma keys_run_init: "keys (run init evs) = rev (remdups (rev (launched init evs)))"
  by (simp add: keys_run init_invariants foldl_add_key_first)

lemma wf_refs_lookup:
  assumes "wf_refs s" "map_get (runningProcesses s) pid = Some old"
  shows "process old < length (children s)"
proof -
  from assms(2) have "(pid, old) \<in> set (runningProcesses s)"
    by (simp add: map_get_def map_of_SomeD)
  with assms(1) show ?thesis
    by (auto simp: wf_refs_def list_all_iff)
qed

text \<open>
  A launch that draws an identifier that is already a key replaces the record stored
  under that key by the record of the new child, and leaves the list of keys as it is.
\<close>

lemma launch_replaces_record:
  assumes "wf_refs s" "pid \<in> set (launched_by s ev)" "pid \<in> set (keys s)"
  shows "(\<exists>old new. map_get (runningProcesses s) pid = Some old \<and>
            map_get (runningProcesses (step s ev)) pid = Some new \<and> new \<noteq> old \<and>
            process new = length (children s)) \<and>
         keys (step s ev) = keys s"
proof -
  from assms(3) have "map_has (runningProcesses s) pid"
    by (simp add: map_has_set_keys)
  from has_get_Some [OF this] obtain old
    where old: "map_get (runningProcesses s) pid = Some old"
    by blast
  from step_registry [of s ev] assms(2) obtain e info
    where l: "launched_by s ev = [math_random_id e]"
      and fresh: "fresh_info e s info"
      and reg: "runningProcesses (step s ev) =
        map_set (math_random_id e) info (runningProcesses s)"
    by auto
  from l assms(2) have pid: "pid = math_random_id e" by simp
  from reg pid have new: "map_get (runningProcesses (step s ev)) pid = Some info"
    by (simp add: map_get_def map_of_map_set)
  from fresh have h: "process info = length (children s)"
    by (simp add: fresh_info_def)
  from wf_refs_lookup [OF assms(1) old] h have "info \<noteq> old" by auto
  moreover from l pid assms(3) have "keys (step s ev) = keys s"
    by (simp add: keys_step add_key_def)
  ultimately show ?thesis using old new h by blast
qed

lemma run_hello:
  "run init hello_trace =
     \<lparr>runningProcesses =
        [(''k3x9'', \<lparr>process = 0, command = ''npm'', args = [''start''], cwd = ''/app'',
            output_text = [], errorOutput = [], startTime = 5000, processId = ''k3x9''\<rparr>)],
      children = [\<lparr>exitCode = Some 0, signalCode = None, killed = False\<rparr>],
      listeners = [\<lparr>local_output = ''hello'' @ [CHR 0x0A], local_errorOutput = []\<rparr>]\<rparr>"
  by (simp add: eval_defs)

section \<open>Status queries and the output buffers\<close>

lemma status_of_registered:
  assumes "map_get (runningProcesses s) pid = Some info" "pid \<noteq> []"
  shows "handleGetProcessOutput e pid s =
      [(''processId'', JStr pid),
       (''command'', JStr (command_str info)),
       (''directory'', JStr (cwd info)),
       (''isRunning'', JBool (exitCode (child_of s info) = None)),
       (''exitCode'', exitCode_val (child_of s info)),
       (''output'', JStr (output_text info)),
       (''errorOutput'', JStr (errorOutput info)),
       (''startTime'', JStr (toISOString e (startTime info))),
       (''runTime'', JStr (runTime_str e info))]"
  using assms map_get_has [OF assms(1)]
  by (simp add: handleGetProcessOutput_def getProcessOutput_body_def Let_def)

text \<open>
  The listeners append every chunk to the local variables of their activation of
  \<^verbatim>\<open>startProcess\<close>; the stored record holds the strings that were copied into it when it
  was built, and nothing assigns to them afterwards. So whatever the children write, a
  status query of a launched identifier reports empty buffers.
\<close>

lemma status_output_always_empty:
  assumes "pid \<in> set (launched init evs)" "pid \<noteq> []"
  shows "field (handleGetProcessOutput e pid (run init evs)) ''output'' = JStr [] \<and>
         field (handleGetProcessOutput e pid (run init evs)) ''errorOutput'' = JStr []"
proof -
  define s where "s = run init evs"
  have "set (keys s) = set (launched init evs)"
    by (simp add: s_def keys_run set_foldl_add_key init_invariants)
  with assms(1) have "map_has (runningProcesses s) pid"
    by (simp add: map_has_set_keys)
  from has_get_Some [OF this] obtain info
    where info: "map_get (runningProcesses s) pid = Some info"
      and mem: "(pid, info) \<in> set (runningProcesses s)"
    by blast
  have "outputs_empty s"
    by (simp add: s_def outputs_empty_run init_invariants)
  then have "\<forall>entry \<in> set (runningProcesses s).
      output_text (snd entry) = [] \<and> errorOutput (snd entry) = []"
    by (simp add: outputs_empty_def list_all_iff case_prod_beta)
  from bspec [OF this mem] have empty: "output_text info = []" "errorOutput info = []"
    by simp_all
  have "handleGetProcessOutput e pid s =
      [(''processId'', JStr pid),
       (''command'', JStr (command_str info)),
       (''directory'', JStr (cwd info)),
       (''isRunning'', JBool (exitCode (child_of s info) = None)),
       (''exitCode'', exitCode_val (child_of s info)),
       (''output'', JStr []),
       (''errorOutput'', JStr []),
       (''startTime'', JStr (toISOString e (startTime info))),
       (''runTime'', JStr (runTime_str e info))]"
    unfolding status_of_registered [OF info assms(2)] empty ..
  then show ?thesis
    unfolding s_def [symmetric] by (simp add: field_def)
qed

text \<open>
  Claim C1 says that every chunk a launched process writes to stdout is appended to the
  registered stdout buffer, so that after a process printed \<^verbatim>\<open>hello\<close> and exited, a status
  query returns the output \<^verbatim>\<open>"hello\n"\<close>. On the code the chunk reaches only the listener's
  local variable: after the development server printed \<^verbatim>\<open>hello\<close> and a newline and exited
  with 0, the status query reports \<open>isRunning = false\<close>, \<open>exitCode = 0\<close> and the output
  \<^verbatim>\<open>""\<close>.
\<close>

theorem C1_status_output_stays_empty:
  "launched init hello_trace = [''k3x9''] \<and>
   local_output (listeners (run init hello_trace) ! 0) = ''hello'' @ [CHR 0x0A] \<and>
   handleGetProcessOutput demo_env ''k3x9'' (run init hello_trace) =
     [(''processId'', JStr ''k3x9''), (''command'', JStr ''npm start''),
      (''directory'', JStr ''/app''), (''isRunning'', JBool False), (''exitCode'', JNum 0),
      (''output'', JStr []), (''errorOutput'', JStr []),
      (''startTime'', JStr ''5000''), (''runTime'', JStr ''0 seconds'')]"
  by (simp add: eval_defs)

section \<open>Termination and the running flag\<close>

text \<open>A child that has ended is never changed again, whatever happens.\<close>

lemma child_kill_ended:
  assumes "h < length (children s)" "\<not> alive (children s ! h)"
  shows "children (child_kill h' s) ! h = children s ! h"
proof (cases "h' < length (children s) \<and> alive (children s ! h')")
  case False
  then have "child_kill h' s = s"
    unfolding child_kill_def by (rule if_not_P)
  then show ?thesis by simp
next
  case True
  with assms(2) have ne: "h' \<noteq> h" by auto
  from True have "child_kill h' s =
      s\<lparr>children := (children s)[h' := (children s ! h')\<lparr>killed := True\<rparr>]\<rparr>"
    unfolding child_kill_def by (rule if_P)
  with ne show ?thesis by simp
qed

lemma os_step_ended:
  "h < length (children s) \<Longrightarrow> \<not> alive (children s ! h) \<Longrightarrow>
     children (os_step ev s) ! h = children s ! h"
  by (cases ev) (auto simp: nth_list_update)

lemma handleStopProcess_ended:
  "h < length (children s) \<Longrightarrow> \<not> alive (children s ! h) \<Longrightarrow>
     children (snd (handleStopProcess pid s)) ! h = children s ! h"
  by (simp add: handleStopProcess_def stopProcess_body_def child_kill_ended
      split: option.splits)

lemma step_ended:
  assumes "h < length (children s)" "\<not> alive (children s ! h)"
  shows "children (step s ev) ! h = children s ! h \<and> h < length (children (step s ev))"
proof (cases ev)
  case (Os oe)
  with assms show ?thesis by (simp add: os_step_ended os_step_frame)
next
  case (Call e c)
  show ?thesis
  proof (cases "is_launch c")
    case False
    with Call assms show ?thesis
      by (cases c) (simp_all add: handleStopProcess_ended handleStopProcess_frame)
  next
    case True
    from call_tool_launch [OF True, of e s]
    consider (err) m where "call_tool e c s = ([(''error'', JStr m)], s)"
      | (ok) res info where "call_tool e c s = (res, registered s (math_random_id e) info)"
      unfolding launch_outcome_def by blast
    then show ?thesis
    proof cases
      case err
      with Call assms show ?thesis by simp
    next
      case ok
      with Call assms show ?thesis by (simp add: registered_def nth_append)
    qed
  qed
qed

text \<open>
  Once the runtime has reported that a signal terminated the child, every later status
  query of its identifier reports \<open>isRunning = true\<close> and \<open>exitCode = null\<close>, as long as
  no later launch draws the same identifier again: the handler looks at \<open>exitCode\<close> only,
  and the runtime records a death by signal in \<open>signalCode\<close>.
\<close>

lemma signalled_process_reported_running:
  assumes "map_get (runningProcesses s) pid = Some info" "pid \<noteq> []"
    and "process info < length (children s)"
    and "exitCode (children s ! process info) = None"
    and "signalCode (children s ! process info) = Some sig"
    and "pid \<notin> set (launched s evs)"
  shows "field (handleGetProcessOutput e pid (run s evs)) ''isRunning'' = JBool True \<and>
         field (handleGetProcessOutput e pid (run s evs)) ''exitCode'' = JNull"
  using assms
proof (induction evs arbitrary: s)
  case Nil
  then show ?case
    by (simp add: run_Nil status_of_registered field_def child_of_def exitCode_val_def)
next
  case (Cons ev evs)
  from Cons.prems have dead: "\<not> alive (children s ! process info)"
    by (simp add: alive_def)
  from Cons.prems have "pid \<notin> set (launched_by s ev)" by simp
  then have 1: "map_get (runningProcesses (step s ev)) pid = Some info"
    using Cons.prems(1) by (simp add: lookup_step)
  from step_ended [OF Cons.prems(3) dead, of ev]
  have 2: "children (step s ev) ! process info = children s ! process info"
    and 3: "process info < length (children (step s ev))"
    by simp_all
  from Cons.prems have 4: "pid \<notin> set (launched (step s ev) evs)" by simp
  from Cons.IH [OF 1 Cons.prems(2) 3 _ _ 4] 2 Cons.prems(4,5) show ?case
    by (simp add: run_Cons)
qed

text \<open>
  A process that exited by itself is reported as not running from then on.
\<close>

lemma exited_process_reported_stopped:
  assumes "map_get (runningProcesses s) pid = Some info" "pid \<noteq> []"
    and "process info < length (children s)"
    and "exitCode (children s ! process info) = Some code"
  shows "field (handleGetProcessOutput e pid s) ''isRunning'' = JBool False \<and>
         field (handleGetProcessOutput e pid s) ''exitCode'' = JNum code"
  using assms
  by (simp add: status_of_registered field_def child_of_def exitCode_val_def)

text \<open>
  Claim C2 says that after a stop-process call on a registered identifier, polling the
  status eventually reports \<open>isRunning = false\<close>, and that a status query reports
  \<open>isRunning = false\<close> once the process is no longer alive, also when the termination
  signal ended it. On the code the development server is launched and stopped, SIGTERM
  terminates it (\<open>signalCode = SIGTERM\<close>, \<open>exitCode = null\<close>), and the status query reports
  \<open>isRunning = true\<close>, then and after any further polling.
\<close>

theorem C2_signalled_child_reported_running:
  "launched init stop_trace = [''k3x9''] \<and>
   children (run init stop_trace) =
     [\<lparr>exitCode = None, signalCode = Some ''SIGTERM'', killed = True\<rparr>] \<and>
   field (handleGetProcessOutput demo_env ''k3x9'' (run init stop_trace)) ''isRunning'' =
     JBool True \<and>
   field (handleGetProcessOutput demo_env ''k3x9'' (run init (stop_trace @ poll_trace)))
     ''isRunning'' = JBool True"
  by (simp add: eval_defs)

section \<open>The working directory of a launch\<close>

text \<open>Three handlers check that their directory exists before they start anything.\<close>

lemma run_app_checks_directory:
  "projectPath \<noteq> [] \<Longrightarrow> \<not> fs_existsSync e projectPath \<Longrightarrow>
     handleRunReactApp e projectPath s =
       ([(''error'', JStr (''Error running React app: Directory '' @ projectPath
            @ '' does not exist''))], s)"
  by (simp add: handleRunReactApp_def runReactApp_body_def)

lemma install_package_checks_directory:
  "packageName \<noteq> [] \<Longrightarrow> \<not> fs_existsSync e (or_default directory (process_cwd e)) \<Longrightarrow>
     handleInstallPackage e packageName directory dev s =
       ([(''error'', JStr (''Error installing package: Directory ''
            @ or_default directory (process_cwd e) @ '' does not exist''))], s)"
  by (simp add: handleInstallPackage_def installPackage_body_def Let_def)

lemma run_command_checks_directory:
  "cmd \<noteq> [] \<Longrightarrow> \<not> fs_existsSync e (or_default directory (process_cwd e)) \<Longrightarrow>
     handleRunCommand e cmd directory =
       [(''error'', JStr (''Error executing command: Directory ''
            @ or_default directory (process_cwd e) @ '' does not exist'')),
        (''stderr'', JStr [])]"
  by (simp add: handleRunCommand_def runCommand_body_def Let_def)

text \<open>
  \<^verbatim>\<open>handleCreateReactApp\<close> only checks that the project directory does not exist yet; it
  never looks at its base directory, which becomes the working directory of the child.
\<close>

lemma create_app_ignores_base_directory:
  assumes "name \<noteq> []"
    and "\<not> fs_existsSync e (path_join e (or_default directory (os_homedir e)) name)"
    and "child_spawn e (createCommand name template) []
           (or_default directory (os_homedir e)) = None"
  shows "returned_id (fst (handleCreateReactApp e name template directory s)) =
           Some (math_random_id e) \<and>
         map_option cwd (map_get (runningProcesses
             (snd (handleCreateReactApp e name template directory s))) (math_random_id e)) =
           Some (or_default directory (os_homedir e))"
  using assms
  by (simp add: handleCreateReactApp_def createReactApp_body_def startProcess_def Let_def
      returned_id_def map_get_def map_of_map_set)

text \<open>
  Claim C3 says that a launch requires its working directory to exist and fails with a
  directory-not-found error otherwise, and that no launch preset starts a process in a
  base directory that does not exist. On the code a create-react-app call with the base
  directory \<^verbatim>\<open>/nonexistent\<close>, which does not exist, returns a success result with a
  process identifier, and a child with that working directory is spawned and registered.
\<close>

theorem C3_create_app_in_missing_directory:
  "\<not> fs_existsSync demo_env ''/nonexistent'' \<and>
   handleCreateReactApp demo_env ''app'' None (Some ''/nonexistent'') init =
     ([(''message'', JStr (''Creating React app '' @ [CHR 0x22] @ ''app'' @ [CHR 0x22]
                           @ '' in /nonexistent/app'')),
       (''processId'', JStr ''k3x9''),
       (''projectDir'', JStr ''/nonexistent/app'')],
      \<lparr>runningProcesses =
         [(''k3x9'', \<lparr>process = 0, command = ''npx create-react-app app'', args = [],
            cwd = ''/nonexistent'', output_text = [], errorOutput = [], startTime = 5000,
            processId = ''k3x9''\<rparr>)],
       children = [\<lparr>exitCode = None, signalCode = None, killed = False\<rparr>],
       listeners = [\<lparr>local_output = [], local_errorOutput = []\<rparr>]\<rparr>)"
  by (simp add: eval_defs)

section \<open>Identifiers and the list operation\<close>

lemma snapshot_id_snapshot: "snapshot_id (snapshot e s entry) = fst entry"
  by (cases entry) (simp add: snapshot_id_def snapshot_def field_def)

lemma listed_ids_list: "listed_ids (handleListProcesses e s) = keys s"
  by (simp add: listed_ids_def handleListProcesses_def field_def keys_def Let_def
      snapshot_id_snapshot comp_def)

lemma count_list: "field (handleListProcesses e s) ''count'' = JNum (int (length (keys s)))"
  by (simp add: handleListProcesses_def field_def keys_def Let_def)

text \<open>
  Claim C4 says that after every sequence of N successful launches the list operation
  returns exactly N records with pairwise distinct identifiers, no identifier ever
  colliding with an earlier one. The identifier is a random draw that is not compared
  with the keys in use: when two launches draw the same identifier, the second record
  takes the place of the first, and after two successful launches the list operation
  counts one record.
\<close>

theorem C4_counterexample:
  "launched init clash_trace = [''k3x9'', ''k3x9''] \<and>
   field (handleListProcesses demo_env (run init clash_trace)) ''count'' = JNum 1"
  by (simp add: eval_defs)

text \<open>
  Claim C4, amended: for every run of the supervisor the listed identifiers are pairwise
  distinct and at most as many as the successful launches; when the identifiers drawn by
  the N successful launches are pairwise distinct, the list operation returns exactly N
  records, with these identifiers in launch order, and counts N. A launch that draws an
  identifier already in use overwrites the earlier record: the record stored under the
  identifier after the launch is another one, that of the new child, and the list
  operation returns the same identifiers as before the launch.
\<close>

theorem C4_distinct_draws_give_N_records:
  "distinct (listed_ids (handleListProcesses e (run init evs))) \<and>
   length (listed_ids (handleListProcesses e (run init evs))) \<le> length (launched init evs) \<and>
   (distinct (launched init evs) \<longrightarrow>
      listed_ids (handleListProcesses e (run init evs)) = launched init evs \<and>
      field (handleListProcesses e (run init evs)) ''count'' =
        JNum (int (length (launched init evs)))) \<and>
   (pid \<in> set (launched_by (run init evs) ev) \<and> pid \<in> set (keys (run init evs)) \<longrightarrow>
      (\<exists>old new. map_get (runningProcesses (run init evs)) pid = Some old \<and>
         map_get (runningProcesses (step (run init evs) ev)) pid = Some new \<and>
         new \<noteq> old \<and> process new = length (children (run init evs))) \<and>
      listed_ids (handleListProcesses e (step (run init evs) ev)) =
        listed_ids (handleListProcesses e (run init evs)))"
proof -
  have k: "keys (run init evs) = foldl add_key [] (launched init evs)"
    by (simp add: keys_run init_invariants)
  have "distinct (keys (run init evs))"
    unfolding k by (rule distinct_foldl_add_key) simp
  moreover have "length (keys (run init evs)) \<le> length (launched init evs)"
    unfolding k using length_foldl_add_key [of "[]" "launched init evs"] by simp
  moreover have "keys (run init evs) = launched init evs" if "distinct (launched init evs)"
    unfolding k using that foldl_add_key_fresh [of "[]" "launched init evs"] by simp
  moreover have "wf_refs (run init evs)"
    by (simp add: wf_refs_run init_invariants)
  note launch_replaces_record [OF this, of pid ev]
  ultimately show ?thesis
    by (simp add: listed_ids_list count_list)
qed

theorem C4_distinct_draws_witness:
  "distinct (launched init two_trace) \<and>
   listed_ids (handleListProcesses demo_env (run init two_trace)) = [''k3x9'', ''b7''] \<and>
   field (handleListProcesses demo_env (run init two_trace)) ''count'' = JNum 2 \<and>
   ''k3x9'' \<in> set (launched_by (run init one_launch) relaunch) \<and>
   ''k3x9'' \<in> set (keys (run init one_launch)) \<and>
   map_option process (map_get (runningProcesses (run init one_launch)) ''k3x9'') = Some 0 \<and>
   map_option process (map_get (runningProcesses (step (run init one_launch) relaunch))
     ''k3x9'') = Some 1 \<and>
   listed_ids (handleListProcesses demo_env (step (run init one_launch) relaunch)) = [''k3x9'']"
proof -
  have l: "launched init two_trace = [''k3x9'', ''b7'']"
    by (simp add: eval_defs)
  then have d: "distinct (launched init two_trace)" by simp
  from C4_distinct_draws_give_N_records [of demo_env two_trace] d l
  have first: "listed_ids (handleListProcesses demo_env (run init two_trace)) = [''k3x9'', ''b7'']"
    "field (handleListProcesses demo_env (run init two_trace)) ''count'' = JNum 2"
    by simp_all
  have a: "''k3x9'' \<in> set (launched_by (run init one_launch) relaunch)"
    by (simp add: eval_defs)
  have b: "''k3x9'' \<in> set (keys (run init one_launch))"
    by (simp add: eval_defs)
  have c: "map_option process (map_get (runningProcesses (run init one_launch)) ''k3x9'') =
      Some 0"
    by (simp add: eval_defs)
  have n: "length (children (run init one_launch)) = 1"
    by (simp add: eval_defs)
  have ids: "listed_ids (handleListProcesses demo_env (run init one_launch)) = [''k3x9'']"
    by (simp add: eval_defs)
  from C4_distinct_draws_give_N_records [of demo_env one_launch "''k3x9''" relaunch] a b
  obtain new
    where "map_get (runningProcesses (step (run init one_launch) relaunch)) ''k3x9'' = Some new"
      and "process new = length (children (run init one_launch))"
      and "listed_ids (handleListProcesses demo_env (step (run init one_launch) relaunch)) =
        listed_ids (handleListProcesses demo_env (run init one_launch))"
    by blast
  with n ids have second:
    "map_option process (map_get (runningProcesses (step (run init one_launch) relaunch))
       ''k3x9'') = Some 1"
    "listed_ids (handleListProcesses demo_env (step (run init one_launch) relaunch)) = [''k3x9'']"
    by simp_all
  from d first a b c second show ?thesis by simp
qed

section \<open>The blocking executor\<close>

text \<open>When \<^verbatim>\<open>exec\<close> itself throws, the handler reports the message of that \<^verbatim>\<open>Error\<close>.\<close>

lemma run_command_exec_throws:
  assumes "cmd \<noteq> []" "fs_existsSync e (or_default directory (process_cwd e))"
    and "child_exec e cmd (or_default directory (process_cwd e)) = Inl msg"
  shows "handleRunCommand e cmd directory =
           [(''error'', JStr (''Error executing command: '' @ msg)), (''stderr'', JStr [])]"
  using assms
  by (simp add: handleRunCommand_def runCommand_body_def executeCommand_def Let_def)

text \<open>
  Claim C5: for every command given to run-command that exits with a non-zero status,
  the result has an \<open>error\<close> field and a \<open>stderr\<close> field and none of the fields
  \<open>command\<close>, \<open>directory\<close>, \<open>output\<close> of a success result. When the command was run
  (it is not empty and its directory exists), the result is the error text built from
  the rejected object, which has no message, and the standard error of the command.
\<close>

theorem C5_nonzero_exit_error_shape:
  assumes "child_exec e cmd (or_default directory (process_cwd e)) = Inr r"
    and "exec_code r \<noteq> 0"
  shows "has_field (handleRunCommand e cmd directory) ''error'' \<and>
         has_field (handleRunCommand e cmd directory) ''stderr'' \<and>
         \<not> has_field (handleRunCommand e cmd directory) ''command'' \<and>
         \<not> has_field (handleRunCommand e cmd directory) ''directory'' \<and>
         \<not> has_field (handleRunCommand e cmd directory) ''output'' \<and>
         (cmd \<noteq> [] \<and> fs_existsSync e (or_default directory (process_cwd e)) \<longrightarrow>
            handleRunCommand e cmd directory =
              [(''error'', JStr ''Error executing command: undefined''),
               (''stderr'', JStr (exec_stderr r))])"
proof -
  let ?wd = "or_default directory (process_cwd e)"
  from assms have rej: "executeCommand e cmd ?wd = Inl (ExecReject (exec_stderr r))"
    by (simp add: executeCommand_def)
  have "\<exists>err. runCommand_body e cmd directory = Inl err"
    using rej by (simp add: runCommand_body_def Let_def)
  then obtain err where err: "runCommand_body e cmd directory = Inl err" ..
  then have shape: "handleRunCommand e cmd directory =
      [(''error'', JStr (''Error executing command: '' @ message_of err)),
       (''stderr'', JStr (stderr_of err))]"
    by (simp add: handleRunCommand_def)
  have exact: "handleRunCommand e cmd directory =
      [(''error'', JStr ''Error executing command: undefined''),
       (''stderr'', JStr (exec_stderr r))]"
    if "cmd \<noteq> []" "fs_existsSync e ?wd"
    using that rej by (simp add: handleRunCommand_def runCommand_body_def Let_def)
  from shape exact show ?thesis
    by (simp add: has_field_def)
qed

theorem C5_nonzero_exit_witness:
  "child_exec demo_env ''false'' (or_default None (process_cwd demo_env)) =
     Inr \<lparr>exec_code = 1, exec_signal = None, exec_stdout = ''out'', exec_stderr = ''err''\<rparr> \<and>
   handleRunCommand demo_env ''false'' None =
     [(''error'', JStr ''Error executing command: undefined''), (''stderr'', JStr ''err'')]"
proof -
  let ?r = "\<lparr>exec_code = 1, exec_signal = None, exec_stdout = ''out'', exec_stderr = ''err''\<rparr>"
  have h: "child_exec demo_env ''false'' (or_default None (process_cwd demo_env)) = Inr ?r"
    by (simp add: demo_env_def)
  have c: "exec_code ?r \<noteq> 0" by simp
  from C5_nonzero_exit_error_shape [OF h c] h show ?thesis
    by (simp add: demo_env_def or_default_def)
qed

section \<open>Running an application\<close>

lemma js_get_react_undeclared:
  assumes "\<not> declares_react pkg" "js_get pkg ''dependencies'' = Inr deps" "js_truthy deps"
  shows "js_get deps ''react'' = Inr JUndefined"
proof (cases pkg)
  case (JObj kvs)
  with assms show ?thesis
    by (cases deps) (auto split: option.splits jsval.splits)
next
qed (use assms in auto)

lemma runReactApp_body_rejects:
  assumes "\<not> fs_existsSync e (path_join e projectPath ''package.json'') \<or>
           (\<exists>pkg. fs_readJson e (path_join e projectPath ''package.json'') = Inr pkg \<and>
                  \<not> declares_react pkg)"
  shows "\<exists>err. runReactApp_body e projectPath s = Inl err"
proof -
  from assms consider (nofile) "\<not> fs_existsSync e (path_join e projectPath ''package.json'')"
    | (nodep) pkg where "fs_readJson e (path_join e projectPath ''package.json'') = Inr pkg"
        "\<not> declares_react pkg"
    by blast
  then show ?thesis
  proof cases
    case nofile
    then show ?thesis by (simp add: runReactApp_body_def Let_def)
  next
    case nodep
    show ?thesis
    proof (cases "js_get pkg ''dependencies''")
      case (Inl m)
      with nodep show ?thesis by (simp add: runReactApp_body_def Let_def)
    next
      case (Inr deps)
      show ?thesis
      proof (cases "js_truthy deps")
        case False
        with nodep Inr show ?thesis by (simp add: runReactApp_body_def Let_def)
      next
        case True
        with nodep Inr have "js_get deps ''react'' = Inr JUndefined"
          by (simp add: js_get_react_undeclared)
        with nodep Inr True show ?thesis by (simp add: runReactApp_body_def Let_def)
      qed
    qed
  qed
qed

text \<open>
  Claim C6: for every run-app request on a directory with no package manifest, or whose
  manifest does not declare the react dependency, the result has an \<open>error\<close> field, no
  identifier is handed out, the state is the one before the call (no child was spawned,
  the registry is unchanged) and the list operation returns what it returned before.
\<close>

theorem C6_run_app_without_manifest:
  assumes "\<not> fs_existsSync e (path_join e projectPath ''package.json'') \<or>
           (\<exists>pkg. fs_readJson e (path_join e projectPath ''package.json'') = Inr pkg \<and>
                  \<not> declares_react pkg)"
  shows "has_field (fst (handleRunReactApp e projectPath s)) ''error'' \<and>
         launched_by s (Call e (RunReactApp projectPath)) = [] \<and>
         snd (handleRunReactApp e projectPath s) = s \<and>
         children (snd (handleRunReactApp e projectPath s)) = children s \<and>
         handleListProcesses e' (snd (handleRunReactApp e projectPath s)) =
           handleListProcesses e' s"
proof -
  from runReactApp_body_rejects [OF assms] obtain err
    where "runReactApp_body e projectPath s = Inl err" ..
  then have "handleRunReactApp e projectPath s =
      ([(''error'', JStr (''Error running React app: '' @ message_of err))], s)"
    by (simp add: handleRunReactApp_def)
  then show ?thesis
    by (simp add: has_field_def returned_id_def)
qed

theorem C6_run_app_witness:
  "\<not> fs_existsSync demo_env (path_join demo_env ''/srv'' ''package.json'') \<and>
   has_field (fst (handleRunReactApp demo_env ''/srv'' init)) ''error'' \<and>
   snd (handleRunReactApp demo_env ''/srv'' init) = init"
proof -
  have h: "\<not> fs_existsSync demo_env (path_join demo_env ''/srv'' ''package.json'')"
    by (simp add: demo_env_def)
  then have "\<not> fs_existsSync demo_env (path_join demo_env ''/srv'' ''package.json'') \<or>
      (\<exists>pkg. fs_readJson demo_env (path_join demo_env ''/srv'' ''package.json'') = Inr pkg \<and>
         \<not> declares_react pkg)"
    by blast
  from C6_run_app_without_manifest [OF this, of init] h show ?thesis by blast
qed

section \<open>Stopping a process\<close>

text \<open>
  Claim C7 says that for every registered identifier whose process has exited,
  stop-process returns a success result, twice in a row as well. The handler refuses a
  falsy identifier before it looks at the registry, and the empty string is an
  identifier that a launch can hand out (when \<^verbatim>\<open>Math.random()\<close> returns 0): that
  identifier is registered, its process has exited, and stop-process returns an error.
\<close>

theorem C7_counterexample:
  "launched init empty_id_trace = [[]] \<and>
   map_has (runningProcesses (run init empty_id_trace)) [] \<and>
   exitCode (children (run init empty_id_trace) ! 0) = Some 0 \<and>
   handleStopProcess [] (run init empty_id_trace) =
     ([(''error'', JStr ''Error stopping process: Process ID is required'')],
      run init empty_id_trace)"
  by (simp add: eval_defs)

text \<open>
  Claim C7, amended: for every registered identifier other than the empty string whose
  process has ended, stop-process returns the success result (a message, the command and
  the directory, no \<open>error\<close> field) and leaves the state as it is, so that calling it
  again returns the same success result.
\<close>

theorem C7_stop_exited_process:
  assumes "map_get (runningProcesses s) pid = Some info"
    and "pid \<noteq> []"
    and "\<not> alive (child_of s info)"
  shows "handleStopProcess pid s =
           ([(''message'', JStr (''Process '' @ pid @ '' stopped'')),
             (''command'', JStr (command_str info)),
             (''directory'', JStr (cwd info))], s) \<and>
         \<not> has_field (fst (handleStopProcess pid s)) ''error'' \<and>
         handleStopProcess pid (snd (handleStopProcess pid s)) = handleStopProcess pid s"
proof -
  from assms(3) have "child_kill (process info) s = s"
    by (auto simp: child_of_def child_kill_def alive_def new_child_def split: if_splits)
  with assms(1,2) map_get_has [OF assms(1)]
  have "handleStopProcess pid s =
      ([(''message'', JStr (''Process '' @ pid @ '' stopped'')),
        (''command'', JStr (command_str info)),
        (''directory'', JStr (cwd info))], s)"
    by (simp add: handleStopProcess_def stopProcess_body_def)
  then show ?thesis
    by (simp add: has_field_def)
qed

theorem C7_stop_exited_witness:
  "map_has (runningProcesses (run init hello_trace)) ''k3x9'' \<and>
   exitCode (children (run init hello_trace) ! 0) = Some 0 \<and>
   handleStopProcess ''k3x9'' (run init hello_trace) =
     ([(''message'', JStr ''Process k3x9 stopped''), (''command'', JStr ''npm start''),
       (''directory'', JStr ''/app'')], run init hello_trace) \<and>
   handleStopProcess ''k3x9'' (snd (handleStopProcess ''k3x9'' (run init hello_trace))) =
     handleStopProcess ''k3x9'' (run init hello_trace)"
proof -
  let ?info = "\<lparr>process = 0, command = ''npm'', args = [''start''], cwd = ''/app'',
      output_text = [], errorOutput = [], startTime = 5000, processId = ''k3x9''\<rparr>"
  have a: "map_get (runningProcesses (run init hello_trace)) ''k3x9'' = Some ?info"
    by (simp add: run_hello map_get_def)
  have b: "''k3x9'' \<noteq> []" by simp
  have c: "\<not> alive (child_of (run init hello_trace) ?info)"
    by (simp add: run_hello child_of_def alive_def)
  from C7_stop_exited_process [OF a b c] show ?thesis
    by (simp add: run_hello map_has_def command_str_def)
qed

section \<open>Unknown identifiers\<close>

lemma sublist_in_message: "sublist pid (a @ b @ pid @ c)"
  using sublist_appendI [of pid "a @ b" c] by simp

lemma unknown_id_results:
  assumes "\<not> map_has (runningProcesses s) pid"
  shows "\<exists>m1 m2.
           handleGetProcessOutput e pid s = [(''error'', JStr m1)] \<and> sublist pid m1 \<and>
           handleStopProcess pid s = ([(''error'', JStr m2)], s) \<and> sublist pid m2"
proof (cases "pid = []")
  case True
  then show ?thesis
    by (simp add: handleGetProcessOutput_def getProcessOutput_body_def
        handleStopProcess_def stopProcess_body_def)
next
  case False
  let ?nf = "''Process with ID '' @ pid @ '' not found''"
  from False assms
  have "handleGetProcessOutput e pid s =
          [(''error'', JStr (''Error getting process output: '' @ ?nf))]"
    and "handleStopProcess pid s = ([(''error'', JStr (''Error stopping process: '' @ ?nf))], s)"
    by (simp_all add: handleGetProcessOutput_def getProcessOutput_body_def
        handleStopProcess_def stopProcess_body_def)
  moreover have "sublist pid (''Error getting process output: '' @ ?nf)"
    and "sublist pid (''Error stopping process: '' @ ?nf)"
    by (rule sublist_in_message)+
  ultimately show ?thesis by blast
qed

text \<open>
  Claim C8: for every identifier that no launch of the run has returned, the status
  query and stop-process both return a result object (the handlers catch whatever their
  bodies throw) whose only field is \<open>error\<close>, with a text in which the identifier occurs;
  stop-process leaves the state as it is.
\<close>

theorem C8_unknown_id_error_result:
  assumes "pid \<notin> set (launched init evs)"
  shows "\<exists>m1 m2.
           handleGetProcessOutput e pid (run init evs) = [(''error'', JStr m1)] \<and>
           sublist pid m1 \<and>
           handleStopProcess pid (run init evs) = ([(''error'', JStr m2)], run init evs) \<and>
           sublist pid m2"
proof -
  have "set (keys (run init evs)) = set (launched init evs)"
    by (simp add: keys_run set_foldl_add_key init_invariants)
  with assms have "\<not> map_has (runningProcesses (run init evs)) pid"
    by (simp add: map_has_set_keys)
  then show ?thesis by (rule unknown_id_results)
qed

theorem C8_unknown_id_witness:
  "''zzz'' \<notin> set (launched init hello_trace) \<and>
   handleGetProcessOutput demo_env ''zzz'' (run init hello_trace) =
     [(''error'', JStr ''Error getting process output: Process with ID zzz not found'')] \<and>
   handleStopProcess ''zzz'' (run init hello_trace) =
     ([(''error'', JStr ''Error stopping process: Process with ID zzz not found'')],
      run init hello_trace)"
proof -
  have h: "''zzz'' \<notin> set (launched init hello_trace)"
    by (simp add: eval_defs)
  from C8_unknown_id_error_result [OF h, of demo_env] h show ?thesis
    by (simp add: run_hello handleGetProcessOutput_def getProcessOutput_body_def
        handleStopProcess_def stopProcess_body_def map_has_def)
qed

section \<open>The list operation and the registry\<close>

text \<open>
  Claim C9 says that the list operation returns one snapshot for every record ever
  registered, in registration order, and that no operation removes a record. When a
  launch draws an identifier that is already a key, \<^verbatim>\<open>set\<close> replaces the record stored
  under it: after a create-react-app launch and a run-react-app launch with the same
  draw, two records were registered, the list operation returns one snapshot, and the
  registry holds the second record only.
\<close>

theorem C9_counterexample:
  "length (launched init replace_trace) = 2 \<and>
   listed_ids (handleListProcesses demo_env (run init replace_trace)) = [''k3x9''] \<and>
   map (\<lambda>entry. command (snd entry)) (runningProcesses (run init replace_trace)) = [''npm'']"
  by (simp add: eval_defs)

text \<open>
  Claim C9, amended: in every run the list operation returns a result without an \<open>error\<close>
  field, whose count is the number of its snapshots, with one snapshot for every
  identifier that a launch has registered, in the order in which the identifiers were
  first registered; when the launches drew pairwise distinct identifiers, this is one
  snapshot for every launch, in launch order. No step removes a key from the registry or
  changes the order of the keys: the keys before a step are a prefix of the keys after
  it. A launch that draws an identifier already in use replaces the record stored under
  it: the key stays where it is, and the record found under it after the launch is
  another one, that of the new child.
\<close>

theorem C9_list_snapshots_every_key:
  "\<not> has_field (handleListProcesses e (run init evs)) ''error'' \<and>
   field (handleListProcesses e (run init evs)) ''count'' =
     JNum (int (length (listed_ids (handleListProcesses e (run init evs))))) \<and>
   listed_ids (handleListProcesses e (run init evs)) = rev (remdups (rev (launched init evs))) \<and>
   (distinct (launched init evs) \<longrightarrow>
      listed_ids (handleListProcesses e (run init evs)) = launched init evs) \<and>
   prefix (keys s) (keys (step s ev)) \<and>
   (pid \<in> set (launched_by (run init evs) ev) \<and> pid \<in> set (keys (run init evs)) \<longrightarrow>
      keys (step (run init evs) ev) = keys (run init evs) \<and>
      (\<exists>old new. map_get (runningProcesses (run init evs)) pid = Some old \<and>
         map_get (runningProcesses (step (run init evs) ev)) pid = Some new \<and>
         new \<noteq> old \<and> process new = length (children (run init evs))))"
proof -
  have "\<not> has_field (handleListProcesses e (run init evs)) ''error''"
    by (simp add: handleListProcesses_def has_field_def Let_def)
  moreover have "rev (remdups (rev (launched init evs))) = launched init evs"
    if "distinct (launched init evs)"
    using that by (simp add: distinct_remdups_id)
  moreover have "prefix (keys s) (keys (step s ev))"
    by (simp add: keys_step prefix_foldl_add_key)
  moreover have "wf_refs (run init evs)"
    by (simp add: wf_refs_run init_invariants)
  note launch_replaces_record [OF this, of pid ev]
  ultimately show ?thesis
    by (simp add: listed_ids_list count_list keys_run_init)
qed

theorem C9_list_snapshots_witness:
  "distinct (launched init two_trace) \<and>
   listed_ids (handleListProcesses demo_env (run init two_trace)) = launched init two_trace \<and>
   launched init two_trace = [''k3x9'', ''b7''] \<and>
   ''k3x9'' \<in> set (launched_by (run init created) relaunch) \<and>
   ''k3x9'' \<in> set (keys (run init created)) \<and>
   keys (step (run init created) relaunch) = [''k3x9''] \<and>
   map_option process (map_get (runningProcesses (run init created)) ''k3x9'') = Some 0 \<and>
   map_option process (map_get (runningProcesses (step (run init created) relaunch))
     ''k3x9'') = Some 1"
proof -
  have l: "launched init two_trace = [''k3x9'', ''b7'']"
    by (simp add: eval_defs)
  then have d: "distinct (launched init two_trace)" by simp
  from C9_list_snapshots_every_key [of demo_env two_trace init "Os (ChildExit 0 0)"] d
  have first: "listed_ids (handleListProcesses demo_env (run init two_trace)) =
      launched init two_trace"
    by blast
  have a: "''k3x9'' \<in> set (launched_by (run init created) relaunch)"
    by (simp add: eval_defs)
  have b: "''k3x9'' \<in> set (keys (run init created))"
    by (simp add: eval_defs)
  have c: "map_option process (map_get (runningProcesses (run init created)) ''k3x9'') =
      Some 0"
    by (simp add: eval_defs)
  have n: "length (children (run init created)) = 1"
    by (simp add: eval_defs)
  have ks: "keys (run init created) = [''k3x9'']"
    by (simp add: eval_defs)
  from C9_list_snapshots_every_key
    [of demo_env created init relaunch "''k3x9''"] a b
  obtain new
    where "map_get (runningProcesses (step (run init created) relaunch)) ''k3x9'' = Some new"
      and "process new = length (children (run init created))"
      and "keys (step (run init created) relaunch) = keys (run init created)"
    by blast
  with n ks have second:
    "map_option process (map_get (runningProcesses (step (run init created) relaunch))
       ''k3x9'') = Some 1"
    "keys (step (run init created) relaunch) = [''k3x9'']"
    by simp_all
  from d first l a b c second show ?thesis by simp
qed

text \<open>
  Claim C10: the registry starts with, and every step preserves, the property that each
  stored record's \<open>processId\<close> is the key under which it is stored; the identifier that
  a launch returns to its caller is a key of the registry after the launch, and the
  record stored under it carries that identifier. So the property holds in every run.
\<close>

theorem C10_registry_key_invariant:
  "keys_match init \<and>
   (keys_match s \<longrightarrow> keys_match (step s ev)) \<and>
   (\<forall>pid \<in> set (launched_by s ev).
      \<exists>info. map_get (runningProcesses (step s ev)) pid = Some info \<and> processId info = pid) \<and>
   keys_match (run init evs)"
proof -
  have "\<exists>info. map_get (runningProcesses (step s ev)) pid = Some info \<and> processId info = pid"
    if "pid \<in> set (launched_by s ev)" for pid
    using step_registry [of s ev] that
    by (auto simp: map_get_def map_of_map_set fresh_info_def)
  then show ?thesis
    by (simp add: init_invariants keys_match_step keys_match_run)
qed

theorem C10_registry_key_witness:
  "keys_match (run init hello_trace) \<and>
   keys_match (step (run init hello_trace)
     (Call (demo_env\<lparr>math_random_id := ''b7''\<rparr>) (RunReactApp ''/app''))) \<and>
   launched_by (run init hello_trace)
     (Call (demo_env\<lparr>math_random_id := ''b7''\<rparr>) (RunReactApp ''/app'')) = [''b7''] \<and>
   map_option processId (map_get (runningProcesses
      (step (run init hello_trace)
        (Call (demo_env\<lparr>math_random_id := ''b7''\<rparr>) (RunReactApp ''/app'')))) ''b7'') =
     Some ''b7''"
proof -
  let ?ev = "Call (demo_env\<lparr>math_random_id := ''b7''\<rparr>) (RunReactApp ''/app'')"
  have l: "launched_by (run init hello_trace) ?ev = [''b7'']"
    by (simp add: run_hello eval_defs)
  have k: "keys_match (run init hello_trace)"
    by (simp add: run_hello keys_match_def)
  note inv = C10_registry_key_invariant [of "run init hello_trace" ?ev "[]"]
  from inv k have k': "keys_match (step (run init hello_trace) ?ev)"
    by blast
  from inv have "\<forall>pid \<in> set (launched_by (run init hello_trace) ?ev).
      \<exists>info. map_get (runningProcesses (step (run init hello_trace) ?ev)) pid = Some info \<and>
        processId info = pid"
    by blast
  with l obtain info
    where "map_get (runningProcesses (step (run init hello_trace) ?ev)) ''b7'' = Some info"
      and "processId info = ''b7''"
    by auto
  with k k' l show ?thesis by simp
qed

end
